theory Spec2Isabelle
  imports Main
begin

section \<open>Values of the wizard definition\<close>

text \<open>
  The wizard definition is a loaded YAML/JSON document, so every value the layout code
  receives is one of the following. Mappings keep their insertion order (an association
  list, in which a Python mapping has every key once); a key is looked up with
  \<open>map_of\<close>. Floating point numbers are left out: the layout code never computes with
  numbers.
\<close>

datatype json =
    JNone
  | JBool bool
  | JInt int
  | JStr string
  | JList "json list"
  | JDict "(string \<times> json) list"

text \<open>The exceptions the layout code can raise while a layout is constructed.\<close>

datatype error =
    AttributeError
  | KeyError string
  | TypeError
  | IndexError

text \<open>Python truthiness, as used by \<open>if x:\<close>, \<open>not x\<close> and \<open>x or y\<close>.\<close>

fun py_truthy :: "json \<Rightarrow> bool" where
  "py_truthy JNone = False"
| "py_truthy (JBool b) = b"
| "py_truthy (JInt i) = (i \<noteq> 0)"
| "py_truthy (JStr s) = (s \<noteq> [])"
| "py_truthy (JList xs) = (xs \<noteq> [])"
| "py_truthy (JDict kvs) = (kvs \<noteq> [])"

text \<open>\<open>p in s\<close> on two strings: \<open>p\<close> occurs in \<open>s\<close> as a contiguous substring.\<close>

fun py_substring :: "string \<Rightarrow> string \<Rightarrow> bool" where
  "py_substring p [] = (p = [])"
| "py_substring p (c # cs) = (take (length p) (c # cs) = p \<or> py_substring p cs)"

text \<open>
  \<open>key in v\<close> for a string \<open>key\<close>: key membership on a mapping, element membership on
  a list, substring test on a string, and a \<open>TypeError\<close> on everything else.
\<close>

fun py_contains :: "string \<Rightarrow> json \<Rightarrow> error + bool" where
  "py_contains k (JDict kvs) = Inr (k \<in> set (map fst kvs))"
| "py_contains k (JList xs) = Inr (JStr k \<in> set xs)"
| "py_contains k (JStr s) = Inr (py_substring k s)"
| "py_contains k v = Inl TypeError"

text \<open>
  \<open>v[key]\<close> for a string \<open>key\<close>: the value on a mapping (\<open>KeyError\<close> when the key is
  missing), a \<open>TypeError\<close> on everything else (lists and strings take integer indices).
\<close>

fun py_getitem :: "json \<Rightarrow> string \<Rightarrow> error + json" where
  "py_getitem (JDict kvs) k =
     (case map_of kvs k of None \<Rightarrow> Inl (KeyError k) | Some x \<Rightarrow> Inr x)"
| "py_getitem v k = Inl TypeError"

text \<open>
  \<open>for x in v\<close>: the elements of a list, the one-character strings of a string, the keys
  of a mapping; \<open>None\<close>, booleans and integers are not iterable.
\<close>

fun py_iter :: "json \<Rightarrow> error + json list" where
  "py_iter (JList xs) = Inr xs"
| "py_iter (JStr s) = Inr (map (\<lambda>c. JStr [c]) s)"
| "py_iter (JDict kvs) = Inr (map (\<lambda>kv. JStr (fst kv)) kvs)"
| "py_iter v = Inl TypeError"

section \<open>The application state read by the layout\<close>

text \<open>
  \<open>get_app()\<close> returns the running application. The layout reads its traverser, its
  \<open>details_title\<close> attribute (\<open>None\<close> here when the attribute has never been set) and
  calls \<open>exit(result=...)\<close>; \<open>focus\<close> is the position, among the buttons of the dialog,
  of the button that has the focus. The traverser itself belongs to another module and
  stays abstract: its \<open>has_no_remaining_prompts\<close> method and \<open>move_to_previous_prompt\<close>
  are parameters of the functions that call them.
\<close>

record 'tr app =
  traverser :: 'tr
  details_title :: "string option"
  exit_result :: "int option"
  focus :: nat

section \<open>RunWizardDialogButtonFactory\<close>

datatype handler = yes_handler | back_handler

text \<open>
  A \<open>Button\<close> of the widget library keeps the text and the handler it is given;
  \<open>create_dialog_button\<close> sets \<open>always_hide_cursor\<close> on its window.
\<close>

record button =
  btext :: json
  handler :: handler
  always_hide_cursor :: bool

definition create_dialog_button :: "json \<Rightarrow> handler \<Rightarrow> button" where
  "create_dialog_button t h = \<lparr>btext = t, handler = h, always_hide_cursor = True\<rparr>"

text \<open>The keyword argument \<open>text\<close> is \<open>None\<close> here when the caller does not pass it.\<close>

definition create_yes_button :: "json option \<Rightarrow> button" where
  "create_yes_button kw =
     create_dialog_button (case kw of None \<Rightarrow> JStr ''Yes'' | Some t \<Rightarrow> t) yes_handler"

definition create_back_button :: "json option \<Rightarrow> button" where
  "create_back_button kw =
     create_dialog_button (case kw of None \<Rightarrow> JStr ''Back'' | Some t \<Rightarrow> t) back_handler"

text \<open>
  \<open>create_button\<close> looks the method \<open>_create_<button_name>_button\<close> up by name. Three
  methods of the factory match that pattern: the builders for \<open>yes\<close> and \<open>back\<close>, and
  the helper \<open>_create_dialog_button\<close>, which needs a \<open>handler\<close> argument that
  \<open>create_button\<close> never passes, so the call raises \<open>TypeError\<close>. Any other name
  raises \<open>AttributeError\<close>. A name that is not a string is formatted by \<open>str\<close>, which
  gives \<open>None\<close>, \<open>True\<close>, \<open>False\<close>, a numeral, or a text that starts with a bracket
  or a brace: never one of the three names.
\<close>

definition create_button :: "json \<Rightarrow> json \<Rightarrow> error + button" where
  "create_button button_name txt =
     (let button_kwargs = (if py_truthy txt then Some txt else None)
      in case button_name of
           JStr s \<Rightarrow>
             if s = ''yes'' then Inr (create_yes_button button_kwargs)
             else if s = ''back'' then Inr (create_back_button button_kwargs)
             else if s = ''dialog'' then Inl TypeError
             else Inl AttributeError
         | _ \<Rightarrow> Inl AttributeError)"

section \<open>Widgets\<close>

datatype keys = Keys_Left | Keys_Right | Keys_Tab | Keys_BackTab

text \<open>
  Filters are conditions on the running application. \<open>has_focus i\<close> holds when the
  \<open>i\<close>-th button of the dialog has the focus, \<open>Invert\<close> is \<open>~\<close>,
  \<open>Condition_is_visible\<close> is \<open>Condition(self._is_visible)\<close>.
\<close>

datatype pt_filter =
    has_focus nat
  | Invert pt_filter
  | Condition_is_visible

datatype focus_handler = Focus_next | Focus_previous

type_synonym key_bindings = "(keys \<times> pt_filter option \<times> focus_handler) list"

datatype dimension = Dimension nat nat nat

datatype widget =
    Button_widget button
  | Spacer
  | HorizontalLine
  | WizardSectionTab string json
  | WizardSectionBody string json
  | WizardDetailsPanel
  | DetailPanelToolbarView
  | HSplit "widget list" nat string
  | VSplit "widget list" nat key_bindings
  | Box widget string "nat option" "dimension option"
  | Shadow widget
  | Frame json widget string
  | ConditionalContainer widget pt_filter

section \<open>RunWizardDialog\<close>

record run_wizard_dialog =
  title :: json
  buttons :: "button list"
  container :: widget

definition DEFAULT_BUTTONS :: "string list" where
  "DEFAULT_BUTTONS = [''yes'', ''back'']"

definition is_visible :: "('tr \<Rightarrow> bool) \<Rightarrow> 'tr app \<Rightarrow> bool" where
  "is_visible has_no_remaining_prompts a = has_no_remaining_prompts (traverser a)"

text \<open>
  \<open>buttons[0]\<close> and \<open>buttons[-1]\<close> raise \<open>IndexError\<close> on an empty list. The filters
  are bound to the first and the last button; a binding added without a filter carries
  \<open>None\<close>.
\<close>

definition create_buttons_key_bindings :: "button list \<Rightarrow> error + key_bindings" where
  "create_buttons_key_bindings bs =
     (if bs = [] then Inl IndexError
      else
        let first_selected = has_focus 0;
            last_selected = has_focus (length bs - 1)
        in Inr [(Keys_Left, Some (Invert first_selected), Focus_previous),
                (Keys_Right, Some (Invert last_selected), Focus_next),
                (Keys_Tab, None, Focus_next),
                (Keys_BackTab, None, Focus_previous)])"

definition create_buttons_container :: "button list \<Rightarrow> error + widget" where
  "create_buttons_container bs =
     (case create_buttons_key_bindings bs of
        Inl e \<Rightarrow> Inl e
      | Inr buttons_kb \<Rightarrow> Inr (VSplit (map Button_widget bs) 1 buttons_kb))"

definition create_dialog_frame :: "json \<Rightarrow> button list \<Rightarrow> error + widget" where
  "create_dialog_frame t bs =
     (case create_buttons_container bs of
        Inl e \<Rightarrow> Inl e
      | Inr c \<Rightarrow>
          let frame_body = Box c [] None (Some (Dimension 1 3 3))
          in Inr (Shadow (Frame t frame_body ''class:wizard.dialog.body'')))"

definition get_container :: "json \<Rightarrow> button list \<Rightarrow> error + widget" where
  "get_container t bs =
     (case create_dialog_frame t bs of
        Inl e \<Rightarrow> Inl e
      | Inr f \<Rightarrow>
          let dialog = Box f ''class:wizard.dialog'' (Some 5) None
          in Inr (ConditionalContainer dialog Condition_is_visible))"

fun create_default_buttons_loop :: "string list \<Rightarrow> button list \<Rightarrow> error + button list" where
  "create_default_buttons_loop [] acc = Inr acc"
| "create_default_buttons_loop (button_name # rest) acc =
     (case create_button (JStr button_name) JNone of
        Inl e \<Rightarrow> Inl e
      | Inr b \<Rightarrow> create_default_buttons_loop rest (acc @ [b]))"

definition create_default_buttons :: "error + button list" where
  "create_default_buttons = create_default_buttons_loop DEFAULT_BUTTONS []"

text \<open>
  \<open>RunWizardDialog.__init__\<close>: each keyword argument is \<open>None\<close> here when the caller
  leaves it out, so the title defaults to \<open>Run wizard?\<close> and the buttons to the default
  ones.
\<close>

definition RunWizardDialog_init ::
  "json option \<Rightarrow> button list option \<Rightarrow> error + run_wizard_dialog" where
  "RunWizardDialog_init title_kw buttons_kw =
     (let t = (case title_kw of None \<Rightarrow> JStr ''Run wizard?'' | Some v \<Rightarrow> v)
      in case (case buttons_kw of None \<Rightarrow> create_default_buttons | Some bs \<Rightarrow> Inr bs) of
           Inl e \<Rightarrow> Inl e
         | Inr bs \<Rightarrow>
             (case get_container t bs of
                Inl e \<Rightarrow> Inl e
              | Inr c \<Rightarrow> Inr \<lparr>title = t, buttons = bs, container = c\<rparr>))"

text \<open>
  The arguments \<open>from_done_section_definition\<close> collects for one option: a mapping gives
  \<open>option['name']\<close> (a \<open>KeyError\<close> when missing) and \<open>option.get('description')\<close>;
  anything else is itself the button name, with no text.
\<close>

definition create_button_kwargs :: "json \<Rightarrow> error + (json \<times> json)" where
  "create_button_kwargs opt =
     (case opt of
        JDict kvs \<Rightarrow>
          (case map_of kvs ''name'' of
             None \<Rightarrow> Inl (KeyError ''name'')
           | Some n \<Rightarrow>
               Inr (n, (case map_of kvs ''description'' of None \<Rightarrow> JNone | Some d \<Rightarrow> d)))
      | _ \<Rightarrow> Inr (opt, JNone))"

definition option_button :: "json \<Rightarrow> error + button" where
  "option_button opt =
     (case create_button_kwargs opt of
        Inl e \<Rightarrow> Inl e
      | Inr (button_name, txt) \<Rightarrow> create_button button_name txt)"

fun options_loop :: "json list \<Rightarrow> button list \<Rightarrow> error + button list" where
  "options_loop [] acc = Inr acc"
| "options_loop (opt # rest) acc =
     (case option_button opt of
        Inl e \<Rightarrow> Inl e
      | Inr b \<Rightarrow> options_loop rest (acc @ [b]))"

definition from_done_section_definition :: "json \<Rightarrow> error + run_wizard_dialog" where
  "from_done_section_definition d =
     (if py_truthy d then
        (case py_contains ''description'' d of
           Inl e \<Rightarrow> Inl e
         | Inr has_description \<Rightarrow>
             (case (if has_description
                    then map_sum id Some (py_getitem d ''description'')
                    else Inr None) of
                Inl e \<Rightarrow> Inl e
              | Inr title_kw \<Rightarrow>
                  (case py_contains ''options'' d of
                     Inl e \<Rightarrow> Inl e
                   | Inr has_options \<Rightarrow>
                       if has_options then
                         (case py_getitem d ''options'' of
                            Inl e \<Rightarrow> Inl e
                          | Inr opts \<Rightarrow>
                              (case py_iter opts of
                                 Inl e \<Rightarrow> Inl e
                               | Inr os \<Rightarrow>
                                   (case options_loop os [] of
                                      Inl e \<Rightarrow> Inl e
                                    | Inr bs \<Rightarrow> RunWizardDialog_init title_kw (Some bs))))
                       else RunWizardDialog_init title_kw None)))
      else RunWizardDialog_init None None)"

text \<open>
  \<open>_create_run_wizard_dialog\<close>. The name of the done section is the constant
  \<open>core.DONE_SECTION_NAME\<close> of another module: it is the parameter \<open>dsn\<close> here.
\<close>

definition create_run_wizard_dialog :: "string \<Rightarrow> json \<Rightarrow> error + run_wizard_dialog" where
  "create_run_wizard_dialog dsn wizard_definition =
     (case py_getitem wizard_definition ''plan'' of
        Inl e \<Rightarrow> Inl e
      | Inr plan \<Rightarrow>
          (case py_getitem plan dsn of
             Inl e \<Rightarrow> Inl e
           | Inr done_section \<Rightarrow> from_done_section_definition done_section))"

subsection \<open>Handlers and visibility\<close>

text \<open>
  The handlers of the two buttons: \<open>yes\<close> calls \<open>get_app().exit(result=0)\<close>, \<open>back\<close>
  calls \<open>move_to_previous_prompt(get_app())\<close>, a function of another module.
\<close>

definition run_handler :: "('tr app \<Rightarrow> 'tr app) \<Rightarrow> handler \<Rightarrow> 'tr app \<Rightarrow> 'tr app" where
  "run_handler move_to_previous_prompt h a =
     (case h of
        yes_handler \<Rightarrow> a\<lparr>exit_result := Some 0\<rparr>
      | back_handler \<Rightarrow> move_to_previous_prompt a)"

fun eval_filter :: "('tr \<Rightarrow> bool) \<Rightarrow> 'tr app \<Rightarrow> pt_filter \<Rightarrow> bool" where
  "eval_filter hnrp a (has_focus i) = (focus a = i)"
| "eval_filter hnrp a (Invert f) = (\<not> eval_filter hnrp a f)"
| "eval_filter hnrp a Condition_is_visible = is_visible hnrp a"

text \<open>
  Modelled from the spec: \<open>ConditionalContainer\<close> is a class of the widget library,
  absent from the sources. The spec (2, 3) has the visibility predicate evaluated anew on
  every frame, with no caching: the content is shown on a frame exactly when the filter
  holds on the application state of that frame. Every other widget is always shown.
\<close>

fun container_visible :: "('tr \<Rightarrow> bool) \<Rightarrow> widget \<Rightarrow> 'tr app \<Rightarrow> bool" where
  "container_visible hnrp (ConditionalContainer w f) a = eval_filter hnrp a f"
| "container_visible hnrp w a = True"

text \<open>
  Modelled from the spec: the event loop belongs to the host application. The spec (5)
  has one frame-driven loop in which a handler returns before the next event is
  processed: the frames of a session are the state of the first frame, then the state
  after each handler that runs, in order.
\<close>

fun frames :: "('tr app \<Rightarrow> 'tr app) \<Rightarrow> handler list \<Rightarrow> 'tr app \<Rightarrow> 'tr app list" where
  "frames mtpp [] a = [a]"
| "frames mtpp (h # hs) a = a # frames mtpp hs (run_handler mtpp h a)"

subsection \<open>Focus movement\<close>

text \<open>
  Modelled from the spec: \<open>focus_next\<close> and \<open>focus_previous\<close> are functions of the
  widget library, absent from the sources. The spec (4.1) has them move the focus
  cyclically through the actions of the dialog: \<open>k\<close> is the number of buttons, the focus
  is a position below \<open>k\<close>.
\<close>

definition focus_next :: "nat \<Rightarrow> 'tr app \<Rightarrow> 'tr app" where
  "focus_next k a = a\<lparr>focus := (focus a + 1) mod k\<rparr>"

definition focus_previous :: "nat \<Rightarrow> 'tr app \<Rightarrow> 'tr app" where
  "focus_previous k a = a\<lparr>focus := (focus a + k - 1) mod k\<rparr>"

fun run_focus_handler :: "nat \<Rightarrow> focus_handler \<Rightarrow> 'tr app \<Rightarrow> 'tr app" where
  "run_focus_handler k Focus_next a = focus_next k a"
| "run_focus_handler k Focus_previous a = focus_previous k a"

text \<open>
  Modelled from the spec: the dispatch of a key press belongs to the widget library. A
  binding is enabled when it has no filter or its filter holds; the key runs the handler
  of the last enabled binding for it, and does nothing when there is none.
\<close>

definition binding_enabled ::
  "('tr \<Rightarrow> bool) \<Rightarrow> 'tr app \<Rightarrow> keys \<Rightarrow> keys \<times> pt_filter option \<times> focus_handler \<Rightarrow> bool" where
  "binding_enabled hnrp a key b =
     (fst b = key \<and> (case fst (snd b) of None \<Rightarrow> True | Some f \<Rightarrow> eval_filter hnrp a f))"

definition press_key ::
  "('tr \<Rightarrow> bool) \<Rightarrow> key_bindings \<Rightarrow> nat \<Rightarrow> keys \<Rightarrow> 'tr app \<Rightarrow> 'tr app" where
  "press_key hnrp kb k key a =
     (case rev (filter (binding_enabled hnrp a key) kb) of
        [] \<Rightarrow> a
      | b # _ \<Rightarrow> run_focus_handler k (snd (snd b)) a)"

section \<open>WizardDetailsPanel and DetailPanelToolbarView\<close>

text \<open>
  \<open>WizardDetailsPanel._get_title\<close>:
  \<open>getattr(get_app(), 'details_title', '') or "Details panel"\<close>.
\<close>

definition get_title :: "'tr app \<Rightarrow> string" where
  "get_title a =
     (let t = (case details_title a of None \<Rightarrow> [] | Some s \<Rightarrow> s)
      in if t \<noteq> [] then t else ''Details panel'')"

text \<open>
  \<open>DetailPanelToolbarView.help_text\<close>: the title is
  \<open>getattr(app, 'details_title', 'Details panel')\<close>, and the result is the markup built
  from it. \<open>STYLE\<close> and \<open>SPACING\<close> are attributes of the base class, defined in another
  module, and are parameters here.
\<close>

definition help_text_title :: "'tr app \<Rightarrow> string" where
  "help_text_title a = (case details_title a of None \<Rightarrow> ''Details panel'' | Some s \<Rightarrow> s)"

definition help_text :: "string \<Rightarrow> string \<Rightarrow> 'tr app \<Rightarrow> string" where
  "help_text STYLE SPACING a =
     (let t = help_text_title a
      in STYLE @ ''[F2]</style> Switch to '' @ t @ SPACING
         @ STYLE @ ''[F3]</style> Show/Hide '' @ t)"

section \<open>WizardLayoutFactory\<close>

definition create_section_tab :: "string \<Rightarrow> json \<Rightarrow> widget" where
  "create_section_tab section_name section_definition =
     WizardSectionTab section_name section_definition"

definition create_section_body :: "string \<Rightarrow> json \<Rightarrow> widget" where
  "create_section_body section_name section_definition =
     WizardSectionBody section_name section_definition"

text \<open>
  \<open>_create_done_section_tab\<close>: \<open>not done_definition or 'shortname' not in
  done_definition\<close> evaluates the membership test only for a truthy definition.
\<close>

definition create_done_section_tab :: "string \<Rightarrow> json \<Rightarrow> error + widget" where
  "create_done_section_tab dsn done_definition =
     (if \<not> py_truthy done_definition
      then Inr (WizardSectionTab dsn (JDict [(''shortname'', JStr ''Done'')]))
      else
        (case py_contains ''shortname'' done_definition of
           Inl e \<Rightarrow> Inl e
         | Inr has_shortname \<Rightarrow>
             if \<not> has_shortname
             then Inr (WizardSectionTab dsn (JDict [(''shortname'', JStr ''Done'')]))
             else Inr (WizardSectionTab dsn done_definition)))"

text \<open>
  The loop of \<open>_create_sections\<close> over \<open>definition['plan'].items()\<close>, with the two lists
  it appends to. The dialog enters the body column as the container its
  \<open>__pt_container__\<close> returns.
\<close>

fun create_sections_loop ::
  "string \<Rightarrow> run_wizard_dialog \<Rightarrow> (string \<times> json) list \<Rightarrow> widget list \<Rightarrow> widget list
     \<Rightarrow> error + (widget list \<times> widget list)" where
  "create_sections_loop dsn dlg [] section_tabs section_bodies =
     Inr (section_tabs, section_bodies)"
| "create_sections_loop dsn dlg ((section_name, section_definition) # rest)
       section_tabs section_bodies =
     (if section_name = dsn then
        (case create_done_section_tab dsn section_definition of
           Inl e \<Rightarrow> Inl e
         | Inr t \<Rightarrow>
             create_sections_loop dsn dlg rest
               (section_tabs @ [t]) (section_bodies @ [container dlg]))
      else
        create_sections_loop dsn dlg rest
          (section_tabs @ [create_section_tab section_name section_definition])
          (section_bodies @ [create_section_body section_name section_definition]))"

text \<open>
  \<open>_create_sections\<close>: \<open>.items()\<close> exists on a mapping only, so any other value of
  \<open>definition['plan']\<close> raises \<open>AttributeError\<close>.
\<close>

definition create_sections :: "string \<Rightarrow> json \<Rightarrow> run_wizard_dialog \<Rightarrow> error + widget" where
  "create_sections dsn definition dlg =
     (case py_getitem definition ''plan'' of
        Inl e \<Rightarrow> Inl e
      | Inr plan \<Rightarrow>
          (case plan of
             JDict items \<Rightarrow>
               (case create_sections_loop dsn dlg items [] [] of
                  Inl e \<Rightarrow> Inl e
                | Inr (section_tabs, section_bodies) \<Rightarrow>
                    Inr (VSplit
                           [HSplit (section_tabs @ [Spacer]) 1 ''class:wizard.section.tab'',
                            HSplit (section_bodies @ [WizardDetailsPanel, DetailPanelToolbarView])
                              0 []]
                           0 []))
           | _ \<Rightarrow> Inl AttributeError))"

section \<open>Properties of the button factory and of the dialog\<close>

lemma create_default_buttons_eq:
  "create_default_buttons =
     Inr [\<lparr>btext = JStr ''Yes'', handler = yes_handler, always_hide_cursor = True\<rparr>,
          \<lparr>btext = JStr ''Back'', handler = back_handler, always_hide_cursor = True\<rparr>]"
  by (simp add: create_default_buttons_def DEFAULT_BUTTONS_def create_button_def
      create_yes_button_def create_back_button_def create_dialog_button_def)

lemma get_container_empty: "get_container t [] = Inl IndexError"
  by (simp add: get_container_def create_dialog_frame_def create_buttons_container_def
      create_buttons_key_bindings_def)

lemma get_container_nonempty:
  "bs \<noteq> [] \<Longrightarrow> \<exists>w. get_container t bs = Inr (ConditionalContainer w Condition_is_visible)"
  by (simp add: get_container_def create_dialog_frame_def create_buttons_container_def
      create_buttons_key_bindings_def Let_def)

lemma init_Some_empty: "RunWizardDialog_init title_kw (Some []) = Inl IndexError"
  by (simp add: RunWizardDialog_init_def get_container_empty)

lemma init_Some_nonempty:
  assumes "bs \<noteq> []"
  shows "\<exists>w. RunWizardDialog_init title_kw (Some bs) =
           Inr \<lparr>title = (case title_kw of None \<Rightarrow> JStr ''Run wizard?'' | Some v \<Rightarrow> v),
                buttons = bs,
                container = ConditionalContainer w Condition_is_visible\<rparr>"
proof -
  obtain w where "get_container (case title_kw of None \<Rightarrow> JStr ''Run wizard?'' | Some v \<Rightarrow> v) bs
      = Inr (ConditionalContainer w Condition_is_visible)"
    using get_container_nonempty [OF assms] by blast
  then show ?thesis
    by (simp add: RunWizardDialog_init_def)
qed

lemma init_None:
  "\<exists>w. RunWizardDialog_init title_kw None =
     Inr \<lparr>title = (case title_kw of None \<Rightarrow> JStr ''Run wizard?'' | Some v \<Rightarrow> v),
          buttons =
            [\<lparr>btext = JStr ''Yes'', handler = yes_handler, always_hide_cursor = True\<rparr>,
             \<lparr>btext = JStr ''Back'', handler = back_handler, always_hide_cursor = True\<rparr>],
          container = ConditionalContainer w Condition_is_visible\<rparr>"
proof -
  let ?bs = "[\<lparr>btext = JStr ''Yes'', handler = yes_handler, always_hide_cursor = True\<rparr>,
             \<lparr>btext = JStr ''Back'', handler = back_handler, always_hide_cursor = True\<rparr>]"
  have "?bs \<noteq> []" by simp
  from init_Some_nonempty [OF this, of title_kw] show ?thesis
    by (simp add: RunWizardDialog_init_def create_default_buttons_eq)
qed

lemma init_Inr:
  assumes "RunWizardDialog_init title_kw buttons_kw = Inr dlg"
  shows "buttons dlg \<noteq> []"
    and "title dlg = (case title_kw of None \<Rightarrow> JStr ''Run wizard?'' | Some v \<Rightarrow> v)"
    and "\<exists>w. container dlg = ConditionalContainer w Condition_is_visible"
    and "\<And>bs. buttons_kw = Some bs \<Longrightarrow> buttons dlg = bs"
proof -
  show "buttons dlg \<noteq> []"
  proof (cases buttons_kw)
    case None
    with assms init_None [of title_kw] show ?thesis by auto
  next
    case (Some bs)
    with assms init_Some_empty [of title_kw] init_Some_nonempty [of bs title_kw]
    show ?thesis by (cases "bs = []") auto
  qed
  then have ne: "buttons_kw = Some bs \<Longrightarrow> bs \<noteq> []" for bs
    using assms init_Some_empty [of title_kw] by auto
  show "title dlg = (case title_kw of None \<Rightarrow> JStr ''Run wizard?'' | Some v \<Rightarrow> v)"
  proof (cases buttons_kw)
    case None
    with assms init_None [of title_kw] show ?thesis by auto
  next
    case (Some bs)
    with assms ne init_Some_nonempty [of bs title_kw] show ?thesis by auto
  qed
  show "\<exists>w. container dlg = ConditionalContainer w Condition_is_visible"
  proof (cases buttons_kw)
    case None
    with assms init_None [of title_kw] show ?thesis by auto
  next
    case (Some bs)
    with assms ne init_Some_nonempty [of bs title_kw] show ?thesis by auto
  qed
  show "\<And>bs. buttons_kw = Some bs \<Longrightarrow> buttons dlg = bs"
    using assms ne init_Some_nonempty [of _ title_kw] by fastforce
qed

lemma options_loop_acc:
  "options_loop os acc = Inr bs \<Longrightarrow>
     \<exists>bs'. bs = acc @ bs' \<and> map option_button os = map Inr bs'"
proof (induction os arbitrary: acc)
  case Nil
  then show ?case by simp
next
  case (Cons opt rest)
  then obtain b where b: "option_button opt = Inr b"
    and rest: "options_loop rest (acc @ [b]) = Inr bs"
    by (auto split: sum.splits)
  from Cons.IH [OF rest] obtain bs' where "bs = (acc @ [b]) @ bs'"
    and "map option_button rest = map Inr bs'" by blast
  with b show ?case by simp
qed

lemma options_loop_total:
  "map option_button os = map Inr bs' \<Longrightarrow> options_loop os acc = Inr (acc @ bs')"
proof (induction os arbitrary: acc bs')
  case Nil
  then show ?case by simp
next
  case (Cons opt rest)
  then obtain b bs'' where "bs' = b # bs''" "option_button opt = Inr b"
    "map option_button rest = map Inr bs''"
    by (cases bs') auto
  with Cons.IH [of bs'' "acc @ [b]"] show ?case by simp
qed

lemma options_loop_error:
  "option_button opt = Inl e \<Longrightarrow> opt \<in> set os \<Longrightarrow> \<exists>e'. options_loop os acc = Inl e'"
proof (induction os arbitrary: acc)
  case Nil
  then show ?case by simp
next
  case (Cons x rest)
  then show ?case
    by (cases "option_button x") auto
qed

lemma from_done_dict:
  "from_done_section_definition (JDict kvs) =
     (if kvs = [] then RunWizardDialog_init None None
      else
        let title_kw = map_of kvs ''description''
        in case map_of kvs ''options'' of
             None \<Rightarrow> RunWizardDialog_init title_kw None
           | Some opts \<Rightarrow>
               (case py_iter opts of
                  Inl e \<Rightarrow> Inl e
                | Inr os \<Rightarrow>
                    (case options_loop os [] of
                       Inl e \<Rightarrow> Inl e
                     | Inr bs \<Rightarrow> RunWizardDialog_init title_kw (Some bs))))"
proof -
  have k: "(k \<in> fst ` set kvs) = (map_of kvs k \<noteq> None)" for k
    by (simp add: map_of_eq_None_iff)
  show ?thesis
    by (cases "map_of kvs ''description''"; cases "map_of kvs ''options''")
       (auto simp: from_done_section_definition_def k Let_def split: sum.splits)
qed

lemma from_done_falsy:
  "\<not> py_truthy d \<Longrightarrow> from_done_section_definition d = RunWizardDialog_init None None"
  by (simp add: from_done_section_definition_def)

lemma from_done_Inr_init:
  "from_done_section_definition d = Inr dlg \<Longrightarrow>
     \<exists>title_kw buttons_kw. RunWizardDialog_init title_kw buttons_kw = Inr dlg"
  unfolding from_done_section_definition_def
  by (auto split: if_splits sum.splits)

lemma container_of_init:
  "RunWizardDialog_init title_kw buttons_kw = Inr dlg \<Longrightarrow>
     container_visible hnrp (container dlg) a = hnrp (traverser a)"
  using init_Inr(3) [of title_kw buttons_kw dlg]
  by (auto simp: is_visible_def)

section \<open>The claims\<close>

text \<open>
  C1. On every frame the dialog is shown exactly when the traverser's
  \<open>has_no_remaining_prompts\<close> holds on the application state of that frame, also on the
  frame that follows the \<open>back\<close> handler. The dialog has no visibility field: what is
  shown is decided by the filter of its container alone.
\<close>

theorem C1_dialog_visibility:
  assumes "from_done_section_definition d = Inr dlg"
  shows "map (container_visible hnrp (container dlg)) (frames mtpp hs a)
           = map (\<lambda>s. hnrp (traverser s)) (frames mtpp hs a)
         \<and> container_visible hnrp (container dlg) (run_handler mtpp back_handler a)
           = hnrp (traverser (mtpp a))"
proof -
  from from_done_Inr_init [OF assms] obtain title_kw buttons_kw
    where "RunWizardDialog_init title_kw buttons_kw = Inr dlg" by blast
  then have "container_visible hnrp (container dlg) s = hnrp (traverser s)" for s
    by (rule container_of_init)
  then show ?thesis
    by (simp add: run_handler_def)
qed

theorem C1_dialog_visibility_witness:
  "(let dlg =
      \<lparr>title = JStr ''Run wizard?'',
       buttons = [\<lparr>btext = JStr ''Back'', handler = back_handler, always_hide_cursor = True\<rparr>],
       container =
         ConditionalContainer
           (Box (Shadow
                  (Frame (JStr ''Run wizard?'')
                     (Box (VSplit
                             [Button_widget
                                \<lparr>btext = JStr ''Back'', handler = back_handler,
                                 always_hide_cursor = True\<rparr>]
                             1
                             [(Keys_Left, Some (Invert (has_focus 0)), Focus_previous),
                              (Keys_Right, Some (Invert (has_focus 0)), Focus_next),
                              (Keys_Tab, None, Focus_next),
                              (Keys_BackTab, None, Focus_previous)])
                        [] None (Some (Dimension 1 3 3)))
                     ''class:wizard.dialog.body''))
              ''class:wizard.dialog'' (Some 5) None)
           Condition_is_visible\<rparr>
    in from_done_section_definition (JDict [(''options'', JList [JStr ''back''])]) = Inr dlg
       \<and> map (container_visible (\<lambda>n. n = (0::nat)) (container dlg))
            (frames (\<lambda>s. s\<lparr>traverser := Suc (traverser s)\<rparr>) [back_handler, yes_handler]
               \<lparr>traverser = 0, details_title = None, exit_result = None, focus = 0\<rparr>)
          = [True, False, False])"
proof -
  have c: "from_done_section_definition (JDict [(''options'', JList [JStr ''back''])]) =
     Inr \<lparr>title = JStr ''Run wizard?'',
       buttons = [\<lparr>btext = JStr ''Back'', handler = back_handler, always_hide_cursor = True\<rparr>],
       container =
         ConditionalContainer
           (Box (Shadow
                  (Frame (JStr ''Run wizard?'')
                     (Box (VSplit
                             [Button_widget
                                \<lparr>btext = JStr ''Back'', handler = back_handler,
                                 always_hide_cursor = True\<rparr>]
                             1
                             [(Keys_Left, Some (Invert (has_focus 0)), Focus_previous),
                              (Keys_Right, Some (Invert (has_focus 0)), Focus_next),
                              (Keys_Tab, None, Focus_next),
                              (Keys_BackTab, None, Focus_previous)])
                        [] None (Some (Dimension 1 3 3)))
                     ''class:wizard.dialog.body''))
              ''class:wizard.dialog'' (Some 5) None)
           Condition_is_visible\<rparr>"
    by (simp add: from_done_section_definition_def option_button_def create_button_kwargs_def
        create_button_def create_back_button_def create_dialog_button_def
        RunWizardDialog_init_def get_container_def create_dialog_frame_def
        create_buttons_container_def create_buttons_key_bindings_def Let_def)
  show ?thesis
    using c C1_dialog_visibility [OF c, of "\<lambda>n. n = (0::nat)"
        "\<lambda>s. s\<lparr>traverser := Suc (traverser s)\<rparr>" "[back_handler, yes_handler]"
        "\<lparr>traverser = 0, details_title = None, exit_result = None, focus = 0\<rparr>"]
    by (simp add: run_handler_def Let_def)
qed

lemma from_done_options_success:
  assumes "map_of kvs ''options'' = Some (JList opts)"
    and "map option_button opts = map Inr bs"
    and "bs \<noteq> []"
  shows "\<exists>dlg. from_done_section_definition (JDict kvs) = Inr dlg \<and> buttons dlg = bs"
proof -
  from assms(1) have ne: "kvs \<noteq> []" by auto
  from options_loop_total [OF assms(2), of "[]"] have "options_loop opts [] = Inr bs" by simp
  with init_Some_nonempty [OF assms(3), of "map_of kvs ''description''"] show ?thesis
    by (auto simp: from_done_dict ne assms(1) Let_def)
qed

lemma create_run_wizard_dialog_plan:
  assumes "map_of wizard_definition ''plan'' = Some (JDict plan)"
  shows "create_run_wizard_dialog dsn (JDict wizard_definition) =
           (case map_of plan dsn of
              None \<Rightarrow> Inl (KeyError dsn)
            | Some done_section \<Rightarrow> from_done_section_definition done_section)"
  using assms by (simp add: create_run_wizard_dialog_def split: option.splits)

text \<open>
  C2. When the done section has a non-empty list of \<open>N\<close> options and the dialog is
  constructed, the dialog has \<open>N\<close> buttons, and its \<open>i\<close>-th button is the button built
  from the \<open>i\<close>-th option.
\<close>

theorem C2_actions_follow_options:
  assumes "map_of kvs ''options'' = Some (JList opts)"
    and "opts \<noteq> []"
    and "from_done_section_definition (JDict kvs) = Inr dlg"
  shows "length (buttons dlg) = length opts
         \<and> (\<forall>i<length opts. option_button (opts ! i) = Inr (buttons dlg ! i))"
proof -
  from assms(1) have ne: "kvs \<noteq> []" by auto
  from assms(3) obtain bs where loop: "options_loop opts [] = Inr bs"
    and init: "RunWizardDialog_init (map_of kvs ''description'') (Some bs) = Inr dlg"
    by (auto simp: from_done_dict ne assms(1) Let_def split: sum.splits)
  from init have "buttons dlg = bs"
    by (rule init_Inr(4)) simp
  moreover from options_loop_acc [OF loop]
  have m: "map option_button opts = map Inr bs" by simp
  ultimately have m': "map option_button opts = map Inr (buttons dlg)" by simp
  then have len: "length (buttons dlg) = length opts"
    by (metis length_map)
  have "option_button (opts ! i) = Inr (buttons dlg ! i)" if "i < length opts" for i
  proof -
    have "map option_button opts ! i = map Inr (buttons dlg) ! i"
      using m' by simp
    with that len show ?thesis by simp
  qed
  with len show ?thesis by blast
qed

theorem C2_actions_follow_options_witness:
  "(let opts = [JStr ''yes'', JDict [(''name'', JStr ''back''), (''description'', JStr ''Go back'')]];
        kvs = [(''description'', JStr ''Finish?''), (''options'', JList opts)];
        bs = [\<lparr>btext = JStr ''Yes'', handler = yes_handler, always_hide_cursor = True\<rparr>,
              \<lparr>btext = JStr ''Go back'', handler = back_handler, always_hide_cursor = True\<rparr>];
        dlg =
          \<lparr>title = JStr ''Finish?'',
           buttons = bs,
           container =
             ConditionalContainer
               (Box (Shadow
                      (Frame (JStr ''Finish?'')
                         (Box (VSplit (map Button_widget bs) 1
                                 [(Keys_Left, Some (Invert (has_focus 0)), Focus_previous),
                                  (Keys_Right, Some (Invert (has_focus 1)), Focus_next),
                                  (Keys_Tab, None, Focus_next),
                                  (Keys_BackTab, None, Focus_previous)])
                            [] None (Some (Dimension 1 3 3)))
                         ''class:wizard.dialog.body''))
                  ''class:wizard.dialog'' (Some 5) None)
               Condition_is_visible\<rparr>
    in map_of kvs ''options'' = Some (JList opts)
       \<and> opts \<noteq> []
       \<and> from_done_section_definition (JDict kvs) = Inr dlg
       \<and> length (buttons dlg) = 2
       \<and> option_button (opts ! 0) = Inr (buttons dlg ! 0)
       \<and> option_button (opts ! 1) = Inr (buttons dlg ! 1))"
proof -
  let ?opts = "[JStr ''yes'', JDict [(''name'', JStr ''back''), (''description'', JStr ''Go back'')]]"
  let ?kvs = "[(''description'', JStr ''Finish?''), (''options'', JList ?opts)]"
  let ?bs = "[\<lparr>btext = JStr ''Yes'', handler = yes_handler, always_hide_cursor = True\<rparr>,
              \<lparr>btext = JStr ''Go back'', handler = back_handler, always_hide_cursor = True\<rparr>]"
  let ?dlg = "\<lparr>title = JStr ''Finish?'',
           buttons = ?bs,
           container =
             ConditionalContainer
               (Box (Shadow
                      (Frame (JStr ''Finish?'')
                         (Box (VSplit (map Button_widget ?bs) 1
                                 [(Keys_Left, Some (Invert (has_focus 0)), Focus_previous),
                                  (Keys_Right, Some (Invert (has_focus 1)), Focus_next),
                                  (Keys_Tab, None, Focus_next),
                                  (Keys_BackTab, None, Focus_previous)])
                            [] None (Some (Dimension 1 3 3)))
                         ''class:wizard.dialog.body''))
                  ''class:wizard.dialog'' (Some 5) None)
               Condition_is_visible\<rparr>"
  have h1: "map_of ?kvs ''options'' = Some (JList ?opts)" by simp
  have h2: "?opts \<noteq> []" by simp
  have h3: "from_done_section_definition (JDict ?kvs) = Inr ?dlg"
    by (simp add: from_done_section_definition_def option_button_def create_button_kwargs_def
        create_button_def create_yes_button_def create_back_button_def create_dialog_button_def
        RunWizardDialog_init_def get_container_def create_dialog_frame_def
        create_buttons_container_def create_buttons_key_bindings_def Let_def)
  from C2_actions_follow_options [OF h1 h2 h3]
  have "length (buttons ?dlg) = length ?opts"
    and "\<forall>i<length ?opts. option_button (?opts ! i) = Inr (buttons ?dlg ! i)"
    by blast+
  then have len: "length (buttons ?dlg) = 2"
    and nth: "\<And>i. i < 2 \<Longrightarrow> option_button (?opts ! i) = Inr (buttons ?dlg ! i)"
    by simp_all
  from nth [of 0] nth [of 1]
  have "option_button (?opts ! 0) = Inr (buttons ?dlg ! 0)"
    and "option_button (?opts ! 1) = Inr (buttons ?dlg ! 1)"
    by simp_all
  with h1 h2 h3 len show ?thesis
    unfolding Let_def by blast
qed

text \<open>
  C3. A constructed dialog never has an empty list of buttons. A done section that is
  \<open>None\<close> or a mapping without \<open>options\<close> gets the two default buttons, \<open>Yes\<close> and
  \<open>Back\<close>; an \<open>options\<close> entry that is the empty list makes the construction raise
  \<open>IndexError\<close> (from \<open>buttons[0]\<close> in \<open>_create_buttons_key_bindings\<close>), so no dialog
  exists for it.
\<close>

theorem C3_dialog_actions_non_empty:
  "(from_done_section_definition d = Inr dlg \<longrightarrow> buttons dlg \<noteq> [])
   \<and> (s = JNone \<or> s = JDict kvs \<and> ''options'' \<notin> set (map fst kvs) \<longrightarrow>
        (\<exists>dlg'. from_done_section_definition s = Inr dlg'
           \<and> buttons dlg' =
               [\<lparr>btext = JStr ''Yes'', handler = yes_handler, always_hide_cursor = True\<rparr>,
                \<lparr>btext = JStr ''Back'', handler = back_handler, always_hide_cursor = True\<rparr>]))
   \<and> (map_of kvs' ''options'' = Some (JList []) \<longrightarrow>
        from_done_section_definition (JDict kvs') = Inl IndexError)"
proof (intro conjI impI)
  assume a: "from_done_section_definition d = Inr dlg"
  from from_done_Inr_init [OF a] obtain title_kw buttons_kw
    where "RunWizardDialog_init title_kw buttons_kw = Inr dlg" by blast
  then show "buttons dlg \<noteq> []" by (rule init_Inr(1))
next
  assume "s = JNone \<or> s = JDict kvs \<and> ''options'' \<notin> set (map fst kvs)"
  then obtain title_kw where "from_done_section_definition s = RunWizardDialog_init title_kw None"
  proof
    assume "s = JNone"
    then have "from_done_section_definition s = RunWizardDialog_init None None"
      by (simp add: from_done_falsy)
    then show ?thesis by (rule that)
  next
    assume b: "s = JDict kvs \<and> ''options'' \<notin> set (map fst kvs)"
    then have "map_of kvs ''options'' = None"
      by (simp add: map_of_eq_None_iff)
    with b have "from_done_section_definition s =
        RunWizardDialog_init (if kvs = [] then None else map_of kvs ''description'') None"
      by (simp add: from_done_dict Let_def)
    then show ?thesis by (rule that)
  qed
  with init_None [of title_kw]
  show "\<exists>dlg'. from_done_section_definition s = Inr dlg'
           \<and> buttons dlg' =
               [\<lparr>btext = JStr ''Yes'', handler = yes_handler, always_hide_cursor = True\<rparr>,
                \<lparr>btext = JStr ''Back'', handler = back_handler, always_hide_cursor = True\<rparr>]"
    by auto
next
  assume a: "map_of kvs' ''options'' = Some (JList [])"
  then have "kvs' \<noteq> []" by auto
  with a show "from_done_section_definition (JDict kvs') = Inl IndexError"
    by (simp add: from_done_dict Let_def init_Some_empty)
qed

theorem C3_dialog_actions_non_empty_witness:
  "(let dlg =
      \<lparr>title = JStr ''Run wizard?'',
       buttons = [\<lparr>btext = JStr ''Back'', handler = back_handler, always_hide_cursor = True\<rparr>],
       container =
         ConditionalContainer
           (Box (Shadow
                  (Frame (JStr ''Run wizard?'')
                     (Box (VSplit
                             [Button_widget
                                \<lparr>btext = JStr ''Back'', handler = back_handler,
                                 always_hide_cursor = True\<rparr>]
                             1
                             [(Keys_Left, Some (Invert (has_focus 0)), Focus_previous),
                              (Keys_Right, Some (Invert (has_focus 0)), Focus_next),
                              (Keys_Tab, None, Focus_next),
                              (Keys_BackTab, None, Focus_previous)])
                        [] None (Some (Dimension 1 3 3)))
                     ''class:wizard.dialog.body''))
              ''class:wizard.dialog'' (Some 5) None)
           Condition_is_visible\<rparr>;
        kvs = [(''description'', JStr ''Finish?'')];
        kvs' = [(''options'', JList [])]
    in from_done_section_definition (JDict [(''options'', JList [JStr ''back''])]) = Inr dlg
       \<and> buttons dlg \<noteq> []
       \<and> ''options'' \<notin> set (map fst kvs)
       \<and> (\<exists>dlg'. from_done_section_definition (JDict kvs) = Inr dlg'
            \<and> buttons dlg' =
               [\<lparr>btext = JStr ''Yes'', handler = yes_handler, always_hide_cursor = True\<rparr>,
                \<lparr>btext = JStr ''Back'', handler = back_handler, always_hide_cursor = True\<rparr>])
       \<and> map_of kvs' ''options'' = Some (JList [])
       \<and> from_done_section_definition (JDict kvs') = Inl IndexError)"
proof -
  let ?dlg = "\<lparr>title = JStr ''Run wizard?'',
       buttons = [\<lparr>btext = JStr ''Back'', handler = back_handler, always_hide_cursor = True\<rparr>],
       container =
         ConditionalContainer
           (Box (Shadow
                  (Frame (JStr ''Run wizard?'')
                     (Box (VSplit
                             [Button_widget
                                \<lparr>btext = JStr ''Back'', handler = back_handler,
                                 always_hide_cursor = True\<rparr>]
                             1
                             [(Keys_Left, Some (Invert (has_focus 0)), Focus_previous),
                              (Keys_Right, Some (Invert (has_focus 0)), Focus_next),
                              (Keys_Tab, None, Focus_next),
                              (Keys_BackTab, None, Focus_previous)])
                        [] None (Some (Dimension 1 3 3)))
                     ''class:wizard.dialog.body''))
              ''class:wizard.dialog'' (Some 5) None)
           Condition_is_visible\<rparr>"
  let ?kvs = "[(''description'', JStr ''Finish?'')]"
  let ?kvs' = "[(''options'', JList [])]"
  have h1: "from_done_section_definition (JDict [(''options'', JList [JStr ''back''])]) = Inr ?dlg"
    by (simp add: from_done_section_definition_def option_button_def create_button_kwargs_def
        create_button_def create_back_button_def create_dialog_button_def
        RunWizardDialog_init_def get_container_def create_dialog_frame_def
        create_buttons_container_def create_buttons_key_bindings_def Let_def)
  have h2: "JDict ?kvs = JNone \<or> JDict ?kvs = JDict ?kvs \<and> ''options'' \<notin> set (map fst ?kvs)"
    by simp
  have h3: "map_of ?kvs' ''options'' = Some (JList [])" by simp
  from C3_dialog_actions_non_empty
    [of "JDict [(''options'', JList [JStr ''back''])]" ?dlg "JDict ?kvs" ?kvs ?kvs'] h1 h2 h3
  have "buttons ?dlg \<noteq> []"
    and "\<exists>dlg'. from_done_section_definition (JDict ?kvs) = Inr dlg'
            \<and> buttons dlg' =
               [\<lparr>btext = JStr ''Yes'', handler = yes_handler, always_hide_cursor = True\<rparr>,
                \<lparr>btext = JStr ''Back'', handler = back_handler, always_hide_cursor = True\<rparr>]"
    and "from_done_section_definition (JDict ?kvs') = Inl IndexError"
    by blast+
  moreover have "''options'' \<notin> set (map fst ?kvs)" by simp
  ultimately show ?thesis
    using h1 h3 unfolding Let_def by (intro conjI)
qed

lemma press_key_bindings:
  assumes "create_buttons_key_bindings bs = Inr kb"
  shows "press_key hnrp kb k Keys_Right a =
           (if focus a = length bs - 1 then a else focus_next k a)"
    and "press_key hnrp kb k Keys_Left a = (if focus a = 0 then a else focus_previous k a)"
    and "press_key hnrp kb k Keys_Tab a = focus_next k a"
    and "press_key hnrp kb k Keys_BackTab a = focus_previous k a"
  using assms
  by (auto simp: create_buttons_key_bindings_def press_key_def binding_enabled_def Let_def
      split: if_splits)

text \<open>
  C4. For a non-empty list of \<open>K\<close> buttons: \<open>Right\<close> on the last button and \<open>Left\<close> on
  the first button do nothing; \<open>Tab\<close> on the last button moves the focus to the first,
  \<open>Shift-Tab\<close> on the first button moves it to the last; with a single button \<open>Left\<close>
  and \<open>Right\<close> do nothing.
\<close>

theorem C4_focus_movement:
  assumes "create_buttons_key_bindings bs = Inr kb"
  shows "(focus a_last = length bs - 1 \<longrightarrow>
            press_key hnrp kb (length bs) Keys_Right a_last = a_last
            \<and> focus (press_key hnrp kb (length bs) Keys_Tab a_last) = 0)
         \<and> (focus a_first = 0 \<longrightarrow>
            press_key hnrp kb (length bs) Keys_Left a_first = a_first
            \<and> focus (press_key hnrp kb (length bs) Keys_BackTab a_first) = length bs - 1)
         \<and> (length bs = 1 \<and> focus a = 0 \<longrightarrow>
            press_key hnrp kb (length bs) Keys_Left a = a
            \<and> press_key hnrp kb (length bs) Keys_Right a = a)"
proof -
  from assms have ne: "bs \<noteq> []"
    by (auto simp: create_buttons_key_bindings_def split: if_splits)
  then have pos: "0 < length bs" by simp
  note pk = press_key_bindings [OF assms]
  have "press_key hnrp kb (length bs) Keys_Right a_last = a_last"
    if "focus a_last = length bs - 1"
    using that by (simp add: pk)
  moreover have "focus (press_key hnrp kb (length bs) Keys_Tab a_last) = 0"
    if "focus a_last = length bs - 1"
    using that pos by (simp add: pk focus_next_def)
  moreover have "press_key hnrp kb (length bs) Keys_Left a_first = a_first"
    if "focus a_first = 0"
    using that by (simp add: pk)
  moreover have "focus (press_key hnrp kb (length bs) Keys_BackTab a_first) = length bs - 1"
    if "focus a_first = 0"
    using that pos by (simp add: pk focus_previous_def)
  moreover have "press_key hnrp kb (length bs) Keys_Left a = a
      \<and> press_key hnrp kb (length bs) Keys_Right a = a"
    if "length bs = 1 \<and> focus a = 0"
    using that by (simp add: pk)
  ultimately show ?thesis by blast
qed

theorem C4_focus_movement_witness:
  "(let yes_button = \<lparr>btext = JStr ''Yes'', handler = yes_handler, always_hide_cursor = True\<rparr>;
        back_button = \<lparr>btext = JStr ''Back'', handler = back_handler, always_hide_cursor = True\<rparr>;
        kb2 = [(Keys_Left, Some (Invert (has_focus 0)), Focus_previous),
               (Keys_Right, Some (Invert (has_focus 2)), Focus_next),
               (Keys_Tab, None, Focus_next),
               (Keys_BackTab, None, Focus_previous)];
        kb1 = [(Keys_Left, Some (Invert (has_focus 0)), Focus_previous),
               (Keys_Right, Some (Invert (has_focus 0)), Focus_next),
               (Keys_Tab, None, Focus_next),
               (Keys_BackTab, None, Focus_previous)];
        at = (\<lambda>i. \<lparr>traverser = (), details_title = None, exit_result = None, focus = i\<rparr>)
    in create_buttons_key_bindings [yes_button, back_button, yes_button] = Inr kb2
       \<and> press_key (\<lambda>t. True) kb2 3 Keys_Right (at 2) = at 2
       \<and> focus (press_key (\<lambda>t. True) kb2 3 Keys_Tab (at 2)) = 0
       \<and> press_key (\<lambda>t. True) kb2 3 Keys_Left (at 0) = at 0
       \<and> focus (press_key (\<lambda>t. True) kb2 3 Keys_BackTab (at 0)) = 2
       \<and> create_buttons_key_bindings [yes_button] = Inr kb1
       \<and> press_key (\<lambda>t. True) kb1 1 Keys_Left (at 0) = at 0
       \<and> press_key (\<lambda>t. True) kb1 1 Keys_Right (at 0) = at 0)"
proof -
  let ?yes_button = "\<lparr>btext = JStr ''Yes'', handler = yes_handler, always_hide_cursor = True\<rparr>"
  let ?back_button = "\<lparr>btext = JStr ''Back'', handler = back_handler, always_hide_cursor = True\<rparr>"
  let ?kb2 = "[(Keys_Left, Some (Invert (has_focus 0)), Focus_previous),
               (Keys_Right, Some (Invert (has_focus 2)), Focus_next),
               (Keys_Tab, None, Focus_next),
               (Keys_BackTab, None, Focus_previous)]"
  let ?kb1 = "[(Keys_Left, Some (Invert (has_focus 0)), Focus_previous),
               (Keys_Right, Some (Invert (has_focus 0)), Focus_next),
               (Keys_Tab, None, Focus_next),
               (Keys_BackTab, None, Focus_previous)]"
  let ?at = "\<lambda>i. \<lparr>traverser = (), details_title = None, exit_result = None, focus = i\<rparr>"
  have k2: "create_buttons_key_bindings [?yes_button, ?back_button, ?yes_button] = Inr ?kb2"
    by (simp add: create_buttons_key_bindings_def)
  have k1: "create_buttons_key_bindings [?yes_button] = Inr ?kb1"
    by (simp add: create_buttons_key_bindings_def)
  show ?thesis
    using k2 k1
      C4_focus_movement [OF k2, of "?at 2" "\<lambda>t. True" "?at 0" "?at 1"]
      C4_focus_movement [OF k1, of "?at 0" "\<lambda>t. True" "?at 0" "?at 0"]
    by (simp add: Let_def eval_nat_numeral)
qed

lemma create_button_unknown:
  "nm \<notin> {JStr ''yes'', JStr ''back'', JStr ''dialog''} \<Longrightarrow>
     create_button nm txt = Inl AttributeError"
  by (cases nm) (simp_all add: create_button_def)

lemma options_loop_first_error:
  "\<forall>p\<in>set pre. \<exists>b. option_button p = Inr b \<Longrightarrow> option_button u = Inl e \<Longrightarrow>
     options_loop (pre @ u # post) acc = Inl e"
  by (induction pre arbitrary: acc) auto

text \<open>
  C5 (amended). When the options of the done section contain an entry whose name is not
  \<open>yes\<close>, \<open>back\<close> or \<open>dialog\<close>, the construction of the dialog fails and no dialog is
  produced. The error is that of the first entry that cannot be built: it is
  \<open>AttributeError\<close> (the unknown action) when every entry before that one is built.
\<close>

theorem C5_unknown_action_fails:
  assumes "map_of kvs ''options'' = Some (JList opts)"
    and "opts = pre @ u # post"
    and "create_button_kwargs u = Inr (nm, txt)"
    and "nm \<notin> {JStr ''yes'', JStr ''back'', JStr ''dialog''}"
  shows "(\<exists>e. from_done_section_definition (JDict kvs) = Inl e)
         \<and> ((\<forall>p\<in>set pre. \<exists>b. option_button p = Inr b) \<longrightarrow>
              from_done_section_definition (JDict kvs) = Inl AttributeError)"
proof -
  from assms(1) have ne: "kvs \<noteq> []" by auto
  have u: "option_button u = Inl AttributeError"
    using assms(3) create_button_unknown [OF assms(4)]
    by (simp add: option_button_def)
  have "u \<in> set opts" using assms(2) by simp
  from options_loop_error [OF u this] obtain e' where "options_loop opts [] = Inl e'"
    by blast
  then have "from_done_section_definition (JDict kvs) = Inl e'"
    by (simp add: from_done_dict ne assms(1) Let_def)
  moreover have "from_done_section_definition (JDict kvs) = Inl AttributeError"
    if "\<forall>p\<in>set pre. \<exists>b. option_button p = Inr b"
    using options_loop_first_error [OF that u, of post "[]"]
    by (simp add: from_done_dict ne assms(1) assms(2) Let_def)
  ultimately show ?thesis by blast
qed

theorem C5_unknown_action_fails_witness:
  "(let u = JStr ''unknown_action'';
        pre = [JDict [(''name'', JStr ''yes''), (''description'', JStr ''Run'')]];
        kvs = [(''description'', JStr ''Finish?''), (''options'', JList (pre @ [u, JStr ''back'']))]
    in map_of kvs ''options'' = Some (JList (pre @ u # [JStr ''back'']))
       \<and> create_button_kwargs u = Inr (u, JNone)
       \<and> u \<notin> {JStr ''yes'', JStr ''back'', JStr ''dialog''}
       \<and> option_button (hd pre) =
           Inr \<lparr>btext = JStr ''Run'', handler = yes_handler, always_hide_cursor = True\<rparr>
       \<and> from_done_section_definition (JDict kvs) = Inl AttributeError)"
proof -
  let ?u = "JStr ''unknown_action''"
  let ?pre = "[JDict [(''name'', JStr ''yes''), (''description'', JStr ''Run'')]]"
  let ?kvs = "[(''description'', JStr ''Finish?''),
               (''options'', JList (?pre @ [?u, JStr ''back'']))]"
  have h1: "map_of ?kvs ''options'' = Some (JList (?pre @ ?u # [JStr ''back'']))" by simp
  have h3: "create_button_kwargs ?u = Inr (?u, JNone)"
    by (simp add: create_button_kwargs_def)
  have h4: "?u \<notin> {JStr ''yes'', JStr ''back'', JStr ''dialog''}" by simp
  have h5: "option_button (hd ?pre) =
      Inr \<lparr>btext = JStr ''Run'', handler = yes_handler, always_hide_cursor = True\<rparr>"
    by (simp add: option_button_def create_button_kwargs_def create_button_def
        create_yes_button_def create_dialog_button_def)
  then have h6: "\<forall>p\<in>set ?pre. \<exists>b. option_button p = Inr b" by simp
  from C5_unknown_action_fails [OF h1 refl h3 h4] h6
  have "from_done_section_definition (JDict ?kvs) = Inl AttributeError"
    by blast
  with h1 h3 h4 h5 show ?thesis
    unfolding Let_def by blast
qed

text \<open>
  The error is not always the one of the unknown action: an earlier entry that is a
  mapping without \<open>name\<close> raises \<open>KeyError\<close> first.
\<close>

theorem C5_first_failing_entry_counterexample:
  "from_done_section_definition
     (JDict [(''options'', JList [JDict [(''description'', JStr ''x'')], JStr ''unknown_action''])])
     = Inl (KeyError ''name'')
   \<and> from_done_section_definition
     (JDict [(''options'', JList [JDict [(''description'', JStr ''x'')], JStr ''unknown_action''])])
     \<noteq> Inl AttributeError"
  by (simp add: from_done_section_definition_def option_button_def create_button_kwargs_def)

text \<open>
  C6. A done section that is a mapping without \<open>description\<close> gives the title
  \<open>Run wizard?\<close> to the dialog constructed from it; a mapping without \<open>options\<close> gives
  exactly the buttons \<open>Yes\<close> (handler \<open>yes\<close>) and \<open>Back\<close> (handler \<open>back\<close>), in that
  order; a done section that is \<open>None\<close> or the empty mapping gives both defaults.
\<close>

theorem C6_dialog_defaults:
  "(''description'' \<notin> set (map fst kvs) \<longrightarrow>
      from_done_section_definition (JDict kvs) = Inr dlg \<longrightarrow>
      title dlg = JStr ''Run wizard?'')
   \<and> (''options'' \<notin> set (map fst kvs') \<longrightarrow>
        (\<exists>dlg'. from_done_section_definition (JDict kvs') = Inr dlg'
           \<and> buttons dlg' =
               [\<lparr>btext = JStr ''Yes'', handler = yes_handler, always_hide_cursor = True\<rparr>,
                \<lparr>btext = JStr ''Back'', handler = back_handler, always_hide_cursor = True\<rparr>]))
   \<and> (d = JNone \<or> d = JDict [] \<longrightarrow>
        (\<exists>dlg'. from_done_section_definition d = Inr dlg'
           \<and> title dlg' = JStr ''Run wizard?''
           \<and> buttons dlg' =
               [\<lparr>btext = JStr ''Yes'', handler = yes_handler, always_hide_cursor = True\<rparr>,
                \<lparr>btext = JStr ''Back'', handler = back_handler, always_hide_cursor = True\<rparr>]))"
proof (intro conjI impI)
  assume a: "''description'' \<notin> set (map fst kvs)"
    and b: "from_done_section_definition (JDict kvs) = Inr dlg"
  from a have n: "map_of kvs ''description'' = None"
    by (simp add: map_of_eq_None_iff)
  from b obtain buttons_kw where "RunWizardDialog_init None buttons_kw = Inr dlg"
    by (auto simp: from_done_dict n Let_def split: if_splits option.splits sum.splits)
  from init_Inr(2) [OF this] show "title dlg = JStr ''Run wizard?''" by simp
next
  assume "''options'' \<notin> set (map fst kvs')"
  then have "map_of kvs' ''options'' = None"
    by (simp add: map_of_eq_None_iff)
  then have "from_done_section_definition (JDict kvs') =
      RunWizardDialog_init (if kvs' = [] then None else map_of kvs' ''description'') None"
    by (simp add: from_done_dict Let_def)
  with init_None [of "if kvs' = [] then None else map_of kvs' ''description''"]
  show "\<exists>dlg'. from_done_section_definition (JDict kvs') = Inr dlg'
           \<and> buttons dlg' =
               [\<lparr>btext = JStr ''Yes'', handler = yes_handler, always_hide_cursor = True\<rparr>,
                \<lparr>btext = JStr ''Back'', handler = back_handler, always_hide_cursor = True\<rparr>]"
    by auto
next
  assume "d = JNone \<or> d = JDict []"
  then have "from_done_section_definition d = RunWizardDialog_init None None"
    by (auto simp: from_done_falsy)
  with init_None [of None]
  show "\<exists>dlg'. from_done_section_definition d = Inr dlg'
           \<and> title dlg' = JStr ''Run wizard?''
           \<and> buttons dlg' =
               [\<lparr>btext = JStr ''Yes'', handler = yes_handler, always_hide_cursor = True\<rparr>,
                \<lparr>btext = JStr ''Back'', handler = back_handler, always_hide_cursor = True\<rparr>]"
    by auto
qed

theorem C6_dialog_defaults_witness:
  "(let kvs = [(''options'', JList [JStr ''back''])];
        kvs' = [(''description'', JStr ''Finish?'')];
        dlg =
          \<lparr>title = JStr ''Run wizard?'',
           buttons = [\<lparr>btext = JStr ''Back'', handler = back_handler, always_hide_cursor = True\<rparr>],
           container =
             ConditionalContainer
               (Box (Shadow
                      (Frame (JStr ''Run wizard?'')
                         (Box (VSplit
                                 [Button_widget
                                    \<lparr>btext = JStr ''Back'', handler = back_handler,
                                     always_hide_cursor = True\<rparr>]
                                 1
                                 [(Keys_Left, Some (Invert (has_focus 0)), Focus_previous),
                                  (Keys_Right, Some (Invert (has_focus 0)), Focus_next),
                                  (Keys_Tab, None, Focus_next),
                                  (Keys_BackTab, None, Focus_previous)])
                            [] None (Some (Dimension 1 3 3)))
                         ''class:wizard.dialog.body''))
                  ''class:wizard.dialog'' (Some 5) None)
               Condition_is_visible\<rparr>
    in ''description'' \<notin> set (map fst kvs)
       \<and> from_done_section_definition (JDict kvs) = Inr dlg
       \<and> title dlg = JStr ''Run wizard?''
       \<and> ''options'' \<notin> set (map fst kvs')
       \<and> (\<exists>dlg'. from_done_section_definition (JDict kvs') = Inr dlg'
            \<and> title dlg' = JStr ''Finish?''
            \<and> buttons dlg' =
               [\<lparr>btext = JStr ''Yes'', handler = yes_handler, always_hide_cursor = True\<rparr>,
                \<lparr>btext = JStr ''Back'', handler = back_handler, always_hide_cursor = True\<rparr>])
       \<and> (\<exists>dlg'. from_done_section_definition JNone = Inr dlg'
            \<and> title dlg' = JStr ''Run wizard?''
            \<and> buttons dlg' =
               [\<lparr>btext = JStr ''Yes'', handler = yes_handler, always_hide_cursor = True\<rparr>,
                \<lparr>btext = JStr ''Back'', handler = back_handler, always_hide_cursor = True\<rparr>]))"
proof -
  let ?kvs = "[(''options'', JList [JStr ''back''])]"
  let ?kvs' = "[(''description'', JStr ''Finish?'')]"
  let ?dlg = "\<lparr>title = JStr ''Run wizard?'',
           buttons = [\<lparr>btext = JStr ''Back'', handler = back_handler, always_hide_cursor = True\<rparr>],
           container =
             ConditionalContainer
               (Box (Shadow
                      (Frame (JStr ''Run wizard?'')
                         (Box (VSplit
                                 [Button_widget
                                    \<lparr>btext = JStr ''Back'', handler = back_handler,
                                     always_hide_cursor = True\<rparr>]
                                 1
                                 [(Keys_Left, Some (Invert (has_focus 0)), Focus_previous),
                                  (Keys_Right, Some (Invert (has_focus 0)), Focus_next),
                                  (Keys_Tab, None, Focus_next),
                                  (Keys_BackTab, None, Focus_previous)])
                            [] None (Some (Dimension 1 3 3)))
                         ''class:wizard.dialog.body''))
                  ''class:wizard.dialog'' (Some 5) None)
               Condition_is_visible\<rparr>"
  have h1: "''description'' \<notin> set (map fst ?kvs)" by simp
  have h2: "from_done_section_definition (JDict ?kvs) = Inr ?dlg"
    by (simp add: from_done_section_definition_def option_button_def create_button_kwargs_def
        create_button_def create_back_button_def create_dialog_button_def
        RunWizardDialog_init_def get_container_def create_dialog_frame_def
        create_buttons_container_def create_buttons_key_bindings_def Let_def)
  have h3: "''options'' \<notin> set (map fst ?kvs')" by simp
  have t: "from_done_section_definition (JDict ?kvs') = Inr dlg' \<Longrightarrow> title dlg' = JStr ''Finish?''"
    for dlg'
    by (auto simp: from_done_dict dest: init_Inr(2))
  from C6_dialog_defaults [of ?kvs ?dlg ?kvs' JNone] h1 h2 h3
  have c1: "title ?dlg = JStr ''Run wizard?''"
    and c2: "\<exists>dlg'. from_done_section_definition (JDict ?kvs') = Inr dlg'
           \<and> buttons dlg' =
               [\<lparr>btext = JStr ''Yes'', handler = yes_handler, always_hide_cursor = True\<rparr>,
                \<lparr>btext = JStr ''Back'', handler = back_handler, always_hide_cursor = True\<rparr>]"
    and c3: "\<exists>dlg'. from_done_section_definition JNone = Inr dlg'
           \<and> title dlg' = JStr ''Run wizard?''
           \<and> buttons dlg' =
               [\<lparr>btext = JStr ''Yes'', handler = yes_handler, always_hide_cursor = True\<rparr>,
                \<lparr>btext = JStr ''Back'', handler = back_handler, always_hide_cursor = True\<rparr>]"
    by blast+
  from c2 t have c2': "\<exists>dlg'. from_done_section_definition (JDict ?kvs') = Inr dlg'
           \<and> title dlg' = JStr ''Finish?''
           \<and> buttons dlg' =
               [\<lparr>btext = JStr ''Yes'', handler = yes_handler, always_hide_cursor = True\<rparr>,
                \<lparr>btext = JStr ''Back'', handler = back_handler, always_hide_cursor = True\<rparr>]"
    by blast
  from h1 h2 c1 h3 c2' c3 show ?thesis
    unfolding Let_def by (intro conjI)
qed

lemma option_button_dict:
  assumes "map_of ov ''name'' = Some (JStr n)"
  shows "option_button (JDict ov) =
           create_button (JStr n)
             (case map_of ov ''description'' of None \<Rightarrow> JNone | Some v \<Rightarrow> v)"
  using assms by (simp add: option_button_def create_button_kwargs_def)

text \<open>
  C7 (amended). For an option that is a mapping naming \<open>yes\<close> or \<open>back\<close>: a description
  that is a non-empty string is the text of the button, and with no description the text
  is the built-in one, \<open>Yes\<close> or \<open>Back\<close>.
\<close>

theorem C7_option_description_is_label:
  assumes "map_of ov ''name'' = Some (JStr n)"
    and "n = ''yes'' \<or> n = ''back''"
  shows "(map_of ov ''description'' = Some (JStr s) \<and> s \<noteq> [] \<longrightarrow>
            (\<exists>b. option_button (JDict ov) = Inr b \<and> btext b = JStr s))
         \<and> (map_of ov ''description'' = None \<longrightarrow>
            (\<exists>b. option_button (JDict ov) = Inr b
               \<and> btext b = JStr (if n = ''yes'' then ''Yes'' else ''Back'')))"
  using assms(2)
  by (auto simp: option_button_dict [OF assms(1)] create_button_def create_yes_button_def
      create_back_button_def create_dialog_button_def)

theorem C7_option_description_is_label_witness:
  "(let ov = [(''name'', JStr ''back''), (''description'', JStr ''Go back'')];
        ov' = [(''name'', JStr ''yes'')]
    in map_of ov ''name'' = Some (JStr ''back'')
       \<and> map_of ov ''description'' = Some (JStr ''Go back'')
       \<and> ''Go back'' \<noteq> []
       \<and> (\<exists>b. option_button (JDict ov) = Inr b \<and> btext b = JStr ''Go back'')
       \<and> map_of ov' ''name'' = Some (JStr ''yes'')
       \<and> map_of ov' ''description'' = None
       \<and> (\<exists>b. option_button (JDict ov') = Inr b \<and> btext b = JStr ''Yes''))"
proof -
  let ?ov = "[(''name'', JStr ''back''), (''description'', JStr ''Go back'')]"
  let ?ov' = "[(''name'', JStr ''yes'')]"
  have h1: "map_of ?ov ''name'' = Some (JStr ''back'')" by simp
  have h2: "map_of ?ov' ''name'' = Some (JStr ''yes'')" by simp
  show ?thesis
    using C7_option_description_is_label [OF h1, of "''Go back''"]
      C7_option_description_is_label [OF h2, of "''Go back''"]
    by (simp add: Let_def)
qed

text \<open>
  The empty string as description is not the text of the button: \<open>if text:\<close> in
  \<open>create_button\<close> drops it and the built-in text is used.
\<close>

theorem C7_empty_description_counterexample:
  "option_button (JDict [(''name'', JStr ''back''), (''description'', JStr [])])
     = Inr \<lparr>btext = JStr ''Back'', handler = back_handler, always_hide_cursor = True\<rparr>
   \<and> btext \<lparr>btext = JStr ''Back'', handler = back_handler, always_hide_cursor = True\<rparr>
     \<noteq> JStr []"
  by (simp add: option_button_def create_button_kwargs_def create_button_def
      create_back_button_def create_dialog_button_def)

text \<open>
  C8 (amended). The tab of the done section receives the definition of the section
  unchanged when it has a \<open>shortname\<close>; when it has none, or the definition is \<open>None\<close>,
  the tab receives the definition that has the single field \<open>shortname\<close> with the value
  \<open>Done\<close>.
\<close>

theorem C8_done_section_tab:
  "(''shortname'' \<in> set (map fst kvs) \<longrightarrow>
      create_done_section_tab dsn (JDict kvs) = Inr (WizardSectionTab dsn (JDict kvs)))
   \<and> (''shortname'' \<notin> set (map fst kvs') \<longrightarrow>
      create_done_section_tab dsn (JDict kvs') =
        Inr (WizardSectionTab dsn (JDict [(''shortname'', JStr ''Done'')])))
   \<and> create_done_section_tab dsn JNone =
        Inr (WizardSectionTab dsn (JDict [(''shortname'', JStr ''Done'')]))"
  by (auto simp: create_done_section_tab_def)

theorem C8_done_section_tab_witness:
  "(let kvs = [(''shortname'', JStr ''Finish''), (''description'', JStr ''Finish?'')];
        kvs' = [(''description'', JStr ''Finish?'')]
    in ''shortname'' \<in> set (map fst kvs)
       \<and> create_done_section_tab ''__DONE__'' (JDict kvs)
           = Inr (WizardSectionTab ''__DONE__'' (JDict kvs))
       \<and> ''shortname'' \<notin> set (map fst kvs')
       \<and> create_done_section_tab ''__DONE__'' (JDict kvs')
           = Inr (WizardSectionTab ''__DONE__'' (JDict [(''shortname'', JStr ''Done'')])))"
  using C8_done_section_tab [of "[(''shortname'', JStr ''Finish''), (''description'', JStr ''Finish?'')]"
      "''__DONE__''" "[(''description'', JStr ''Finish?'')]"]
  by (simp add: Let_def)

text \<open>
  Without a \<open>shortname\<close> the other fields of the definition do not reach the tab: the
  \<open>description\<close> of the section is not in the definition the tab receives.
\<close>

theorem C8_other_fields_dropped_counterexample:
  "create_done_section_tab ''__DONE__'' (JDict [(''description'', JStr ''Finish?'')])
     = Inr (WizardSectionTab ''__DONE__'' (JDict [(''shortname'', JStr ''Done'')]))
   \<and> py_getitem (JDict [(''description'', JStr ''Finish?'')]) ''description''
     = Inr (JStr ''Finish?'')
   \<and> py_getitem (JDict [(''shortname'', JStr ''Done'')]) ''description''
     = Inl (KeyError ''description'')"
  by (simp add: create_done_section_tab_def)

lemma titles_agree:
  "details_title a \<noteq> Some [] \<Longrightarrow> get_title a = help_text_title a"
  by (cases "details_title a") (simp_all add: get_title_def help_text_title_def)

text \<open>
  C9. The title of the details panel and the title in the two hints of the toolbar are
  the same string, \<open>Details panel\<close> when no title is set. They agree for an unset title
  and for a non-empty one (\<open>titles_agree\<close>); for a title set to the empty string the
  panel falls back to \<open>Details panel\<close> and the toolbar shows the empty title.
\<close>

theorem C9_hint_bar_title_on_empty_title:
  "get_title \<lparr>traverser = (), details_title = Some [], exit_result = None, focus = 0\<rparr>
     = ''Details panel''
   \<and> help_text_title \<lparr>traverser = (), details_title = Some [], exit_result = None, focus = 0\<rparr>
     = []
   \<and> help_text ''<b>'' ''  '' \<lparr>traverser = (), details_title = Some [], exit_result = None, focus = 0\<rparr>
     = ''<b>[F2]</style> Switch to   <b>[F3]</style> Show/Hide ''"
  by (simp add: get_title_def help_text_title_def help_text_def)

lemma create_sections_loop_acc:
  "create_sections_loop dsn dlg items ts bs = Inr (ts', bs') \<Longrightarrow>
     \<exists>tn bn. ts' = ts @ tn \<and> bs' = bs @ bn
       \<and> list_all2 (\<lambda>item t.
            if fst item = dsn then create_done_section_tab dsn (snd item) = Inr t
            else t = WizardSectionTab (fst item) (snd item)) items tn
       \<and> list_all2 (\<lambda>item b.
            if fst item = dsn then b = container dlg
            else b = WizardSectionBody (fst item) (snd item)) items bn"
proof (induction items arbitrary: ts bs)
  case Nil
  then show ?case by simp
next
  case (Cons item rest)
  obtain n d where item: "item = (n, d)" by (cases item)
  show ?case
  proof (cases "n = dsn")
    case True
    with Cons.prems item obtain t where t: "create_done_section_tab dsn d = Inr t"
      and r: "create_sections_loop dsn dlg rest (ts @ [t]) (bs @ [container dlg]) = Inr (ts', bs')"
      by (auto split: sum.splits)
    from Cons.IH [OF r] obtain tn bn where "ts' = (ts @ [t]) @ tn" "bs' = (bs @ [container dlg]) @ bn"
      and "list_all2 (\<lambda>item t.
            if fst item = dsn then create_done_section_tab dsn (snd item) = Inr t
            else t = WizardSectionTab (fst item) (snd item)) rest tn"
      and "list_all2 (\<lambda>item b.
            if fst item = dsn then b = container dlg
            else b = WizardSectionBody (fst item) (snd item)) rest bn"
      by blast
    with True item t show ?thesis
      by (intro exI [of _ "t # tn"] exI [of _ "container dlg # bn"]) simp
  next
    case False
    with Cons.prems item
    have r: "create_sections_loop dsn dlg rest (ts @ [WizardSectionTab n d])
        (bs @ [WizardSectionBody n d]) = Inr (ts', bs')"
      by (simp add: create_section_tab_def create_section_body_def)
    from Cons.IH [OF r] obtain tn bn where "ts' = (ts @ [WizardSectionTab n d]) @ tn"
      "bs' = (bs @ [WizardSectionBody n d]) @ bn"
      and "list_all2 (\<lambda>item t.
            if fst item = dsn then create_done_section_tab dsn (snd item) = Inr t
            else t = WizardSectionTab (fst item) (snd item)) rest tn"
      and "list_all2 (\<lambda>item b.
            if fst item = dsn then b = container dlg
            else b = WizardSectionBody (fst item) (snd item)) rest bn"
      by blast
    with False item show ?thesis
      by (intro exI [of _ "WizardSectionTab n d # tn"] exI [of _ "WizardSectionBody n d # bn"])
        simp
  qed
qed

lemma done_section_tab_shape:
  "create_done_section_tab dsn d = Inr t \<Longrightarrow> \<exists>dd. t = WizardSectionTab dsn dd"
  by (auto simp: create_done_section_tab_def split: if_splits sum.splits)

lemma create_sections_loop_total:
  "\<forall>item\<in>set items. fst item = dsn \<longrightarrow> (snd item = JNone \<or> (\<exists>kvs. snd item = JDict kvs)) \<Longrightarrow>
     \<exists>r. create_sections_loop dsn dlg items ts bs = Inr r"
proof (induction items arbitrary: ts bs)
  case Nil
  then show ?case by simp
next
  case (Cons item rest)
  obtain n d where item: "item = (n, d)" by (cases item)
  show ?case
  proof (cases "n = dsn")
    case True
    with Cons.prems item have "d = JNone \<or> (\<exists>kvs. d = JDict kvs)" by simp
    then have "\<exists>t. create_done_section_tab dsn d = Inr t"
      by (auto simp: create_done_section_tab_def)
    then obtain t where "create_done_section_tab dsn d = Inr t" ..
    with True item Cons.IH [of "ts @ [t]" "bs @ [container dlg]"] Cons.prems
    show ?thesis by simp
  next
    case False
    with item Cons.IH Cons.prems show ?thesis by simp
  qed
qed

text \<open>
  C10. For a plan of \<open>S\<close> sections that is compiled, the tab column holds one section
  tab per section, in the order of the plan and named after it, followed by one
  \<open>Spacer\<close>: \<open>S + 1\<close> children. The body column holds the \<open>S\<close> bodies in the same order
  (the container of the dialog for the done section), followed by the details panel and
  the toolbar.
\<close>

theorem C10_tab_and_body_columns:
  assumes "py_getitem definition ''plan'' = Inr (JDict items)"
    and "create_sections dsn definition dlg = Inr w"
  shows "\<exists>tabs bodies.
           w = VSplit
                 [HSplit (tabs @ [Spacer]) 1 ''class:wizard.section.tab'',
                  HSplit (bodies @ [WizardDetailsPanel, DetailPanelToolbarView]) 0 []]
                 0 []
           \<and> length tabs = length items
           \<and> length bodies = length items
           \<and> (\<forall>i<length items.
                 (\<exists>dd. tabs ! i = WizardSectionTab (fst (items ! i)) dd)
                 \<and> (fst (items ! i) \<noteq> dsn \<longrightarrow>
                      tabs ! i = WizardSectionTab (fst (items ! i)) (snd (items ! i))
                      \<and> bodies ! i = WizardSectionBody (fst (items ! i)) (snd (items ! i)))
                 \<and> (fst (items ! i) = dsn \<longrightarrow>
                      create_done_section_tab dsn (snd (items ! i)) = Inr (tabs ! i)
                      \<and> bodies ! i = container dlg))"
proof -
  from assms obtain ts' bs' where loop: "create_sections_loop dsn dlg items [] [] = Inr (ts', bs')"
    and w: "w = VSplit
                 [HSplit (ts' @ [Spacer]) 1 ''class:wizard.section.tab'',
                  HSplit (bs' @ [WizardDetailsPanel, DetailPanelToolbarView]) 0 []]
                 0 []"
    by (auto simp: create_sections_def split: sum.splits)
  from create_sections_loop_acc [OF loop]
  have tabs: "list_all2 (\<lambda>item t.
            if fst item = dsn then create_done_section_tab dsn (snd item) = Inr t
            else t = WizardSectionTab (fst item) (snd item)) items ts'"
    and bodies: "list_all2 (\<lambda>item b.
            if fst item = dsn then b = container dlg
            else b = WizardSectionBody (fst item) (snd item)) items bs'"
    by simp_all
  from tabs have lt: "length ts' = length items"
    by (simp add: list_all2_lengthD)
  from bodies have lb: "length bs' = length items"
    by (simp add: list_all2_lengthD)
  have each: "(\<exists>dd. ts' ! i = WizardSectionTab (fst (items ! i)) dd)
      \<and> (fst (items ! i) \<noteq> dsn \<longrightarrow>
           ts' ! i = WizardSectionTab (fst (items ! i)) (snd (items ! i))
           \<and> bs' ! i = WizardSectionBody (fst (items ! i)) (snd (items ! i)))
      \<and> (fst (items ! i) = dsn \<longrightarrow>
           create_done_section_tab dsn (snd (items ! i)) = Inr (ts' ! i)
           \<and> bs' ! i = container dlg)"
    if i: "i < length items" for i
  proof -
    from list_all2_nthD [OF tabs i]
    have t: "if fst (items ! i) = dsn
        then create_done_section_tab dsn (snd (items ! i)) = Inr (ts' ! i)
        else ts' ! i = WizardSectionTab (fst (items ! i)) (snd (items ! i))" .
    from list_all2_nthD [OF bodies i]
    have b: "if fst (items ! i) = dsn then bs' ! i = container dlg
        else bs' ! i = WizardSectionBody (fst (items ! i)) (snd (items ! i))" .
    show ?thesis
    proof (cases "fst (items ! i) = dsn")
      case True
      with t have "create_done_section_tab dsn (snd (items ! i)) = Inr (ts' ! i)" by simp
      with done_section_tab_shape [OF this] True b show ?thesis by auto
    next
      case False
      with t b show ?thesis by simp
    qed
  qed
  with w lt lb show ?thesis by blast
qed

theorem C10_tab_and_body_columns_witness:
  "(let dlg =
      \<lparr>title = JStr ''Run wizard?'',
       buttons = [\<lparr>btext = JStr ''Back'', handler = back_handler, always_hide_cursor = True\<rparr>],
       container =
         ConditionalContainer
           (Box (Shadow
                  (Frame (JStr ''Run wizard?'')
                     (Box (VSplit
                             [Button_widget
                                \<lparr>btext = JStr ''Back'', handler = back_handler,
                                 always_hide_cursor = True\<rparr>]
                             1
                             [(Keys_Left, Some (Invert (has_focus 0)), Focus_previous),
                              (Keys_Right, Some (Invert (has_focus 0)), Focus_next),
                              (Keys_Tab, None, Focus_next),
                              (Keys_BackTab, None, Focus_previous)])
                        [] None (Some (Dimension 1 3 3)))
                     ''class:wizard.dialog.body''))
              ''class:wizard.dialog'' (Some 5) None)
           Condition_is_visible\<rparr>;
        net = JDict [(''shortname'', JStr ''Network'')];
        done_section = JDict [(''options'', JList [JStr ''back''])];
        items = [(''net'', net), (''__DONE__'', done_section)];
        wizard_definition = JDict [(''title'', JStr ''Setup''), (''plan'', JDict items)];
        w = VSplit
              [HSplit
                 [WizardSectionTab ''net'' net,
                  WizardSectionTab ''__DONE__'' (JDict [(''shortname'', JStr ''Done'')]),
                  Spacer]
                 1 ''class:wizard.section.tab'',
               HSplit
                 [WizardSectionBody ''net'' net, container dlg,
                  WizardDetailsPanel, DetailPanelToolbarView]
                 0 []]
              0 []
    in py_getitem wizard_definition ''plan'' = Inr (JDict items)
       \<and> create_sections ''__DONE__'' wizard_definition dlg = Inr w
       \<and> (\<exists>tabs bodies.
             w = VSplit
                   [HSplit (tabs @ [Spacer]) 1 ''class:wizard.section.tab'',
                    HSplit (bodies @ [WizardDetailsPanel, DetailPanelToolbarView]) 0 []]
                   0 []
             \<and> length tabs = 2 \<and> length bodies = 2))"
proof -
  let ?dlg = "\<lparr>title = JStr ''Run wizard?'',
       buttons = [\<lparr>btext = JStr ''Back'', handler = back_handler, always_hide_cursor = True\<rparr>],
       container =
         ConditionalContainer
           (Box (Shadow
                  (Frame (JStr ''Run wizard?'')
                     (Box (VSplit
                             [Button_widget
                                \<lparr>btext = JStr ''Back'', handler = back_handler,
                                 always_hide_cursor = True\<rparr>]
                             1
                             [(Keys_Left, Some (Invert (has_focus 0)), Focus_previous),
                              (Keys_Right, Some (Invert (has_focus 0)), Focus_next),
                              (Keys_Tab, None, Focus_next),
                              (Keys_BackTab, None, Focus_previous)])
                        [] None (Some (Dimension 1 3 3)))
                     ''class:wizard.dialog.body''))
              ''class:wizard.dialog'' (Some 5) None)
           Condition_is_visible\<rparr>"
  let ?net = "JDict [(''shortname'', JStr ''Network'')]"
  let ?done_section = "JDict [(''options'', JList [JStr ''back''])]"
  let ?items = "[(''net'', ?net), (''__DONE__'', ?done_section)]"
  let ?wizard_definition = "JDict [(''title'', JStr ''Setup''), (''plan'', JDict ?items)]"
  let ?w = "VSplit
              [HSplit
                 [WizardSectionTab ''net'' ?net,
                  WizardSectionTab ''__DONE__'' (JDict [(''shortname'', JStr ''Done'')]),
                  Spacer]
                 1 ''class:wizard.section.tab'',
               HSplit
                 [WizardSectionBody ''net'' ?net, container ?dlg,
                  WizardDetailsPanel, DetailPanelToolbarView]
                 0 []]
              0 []"
  have h1: "py_getitem ?wizard_definition ''plan'' = Inr (JDict ?items)" by simp
  have h2: "create_sections ''__DONE__'' ?wizard_definition ?dlg = Inr ?w"
    by (simp add: create_sections_def create_done_section_tab_def create_section_tab_def
        create_section_body_def)
  from C10_tab_and_body_columns [OF h1 h2] obtain tabs bodies
    where "?w = VSplit
                   [HSplit (tabs @ [Spacer]) 1 ''class:wizard.section.tab'',
                    HSplit (bodies @ [WizardDetailsPanel, DetailPanelToolbarView]) 0 []]
                   0 []"
      and "length tabs = length ?items" and "length bodies = length ?items"
    by blast
  then have "?w = VSplit
                   [HSplit (tabs @ [Spacer]) 1 ''class:wizard.section.tab'',
                    HSplit (bodies @ [WizardDetailsPanel, DetailPanelToolbarView]) 0 []]
                   0 []
             \<and> length tabs = 2 \<and> length bodies = 2"
    by simp
  then have "\<exists>tabs bodies.
             ?w = VSplit
                   [HSplit (tabs @ [Spacer]) 1 ''class:wizard.section.tab'',
                    HSplit (bodies @ [WizardDetailsPanel, DetailPanelToolbarView]) 0 []]
                   0 []
             \<and> length tabs = 2 \<and> length bodies = 2"
    by blast
  with h1 h2 show ?thesis
    unfolding Let_def by (intro conjI)
qed

end
